theory Spec2Isabelle
  imports Main
begin

section \<open>The observer pattern of \<open>app.py\<close>: data\<close>

text \<open>
  \<open>app.py\<close> has one concrete subject, \<open>WeatherStation\<close>, and two concrete observers,
  \<open>CurrentConditionsDisplay\<close> and \<open>StatisticsDisplay\<close>. Objects are told apart by
  identity, which is a number here. \<open>Subject\<close> and \<open>Observer\<close> are abstract classes, so a
  client may pass objects of classes of its own: \<open>OtherSubject\<close> and \<open>OtherObserver\<close>.
\<close>

type_synonym station = nat

datatype subject = WeatherStation station | OtherSubject nat

datatype observer = CurrentConditionsDisplay nat | StatisticsDisplay nat | OtherObserver nat

text \<open>
  The value of \<open>subject.temperature\<close>: Python's \<open>None\<close> (line 48) or an integer.
  Python integers are unbounded.
\<close>

type_synonym temp = "int option"

datatype error = ValueError | TypeError | ZeroDivisionError | OverflowError | OtherError nat

text \<open>
  The lines the program prints, without their wording. \<open>Avg_Max_Min a mx mn\<close> is
  line 157; \<open>a\<close> is the average as \<open>:.1f\<close> prints it, in tenths (227 for \<open>22.7\<close>).
\<close>

datatype line =
    New_observer_added
  | Observer_removed
  | Notifying_all_observers
  | Temperature_changed_to int
  | Current_temperature_is temp
  | Avg_Max_Min int temp temp

text \<open>
  The state of the running program.

  \<^item> \<open>WeatherStation_observers\<close> is the list object that the class body binds to
    \<open>WeatherStation._observers\<close> (line 47). No method assigns \<open>self._observers\<close> and
    the class has no constructor, so \<open>self._observers\<close> (lines 56, 65 and 73) finds no
    attribute on the instance and resolves to this one list, whatever \<open>self\<close> is.
  \<^item> \<open>instance_temperature\<close> holds the attribute \<open>_temperature\<close> of each instance.
    Line 83 assigns \<open>self._temperature\<close>, which creates the attribute on the instance;
    an instance that has none reads the class attribute of line 48.
  \<^item> \<open>StatisticsDisplay_temperatures\<close> is the list object bound to
    \<open>StatisticsDisplay._temperatures\<close> (line 138), reached through \<open>self\<close> in the
    same way as the observers.
  \<^item> \<open>stdout\<close> is what has been printed.
\<close>

record world =
  WeatherStation_observers :: "observer list"
  instance_temperature :: "station \<Rightarrow> int option"
  StatisticsDisplay_temperatures :: "temp list"
  stdout :: "line list"

text \<open>The state after the module is loaded: both lists empty, no instance attribute.\<close>

definition world0 :: world where
  "world0 = \<lparr>WeatherStation_observers = [], instance_temperature = (\<lambda>s. None),
     StatisticsDisplay_temperatures = [], stdout = []\<rparr>"

text \<open>
  How a call ends: it returns, it raises, or (in this model only) the budget of loop
  steps ran out while it was still running. Each carries the state reached: what was
  written before an exception stays written.
\<close>

datatype outcome = Return world | Raise error world | Unfinished world

fun world_of :: "outcome \<Rightarrow> world" where
  "world_of (Return w) = w"
| "world_of (Raise e w) = w"
| "world_of (Unfinished w) = w"

definition print :: "line \<Rightarrow> world \<Rightarrow> world" where
  "print l w = w\<lparr>stdout := stdout w @ [l]\<rparr>"

section \<open>Printing an integer\<close>

text \<open>
  The f-strings of lines 82, 127 and 157 convert integers to decimal text. CPython (3.11
  and later, and the security releases of the earlier versions) raises \<open>ValueError\<close>
  when the integer has more than \<open>sys.get_int_max_str_digits()\<close> decimal digits, 4300
  by default; the f-string is evaluated before \<open>print\<close> is called, so nothing is printed
  then. \<open>None\<close> is printed as it is.
\<close>

definition int_max_str_digits :: nat where
  "int_max_str_digits = 4300"

definition str_int_raises :: "int \<Rightarrow> bool" where
  "str_int_raises n = (10 ^ int_max_str_digits \<le> \<bar>n\<bar>)"

fun str_raises :: "temp \<Rightarrow> bool" where
  "str_raises None = False"
| "str_raises (Some n) = str_int_raises n"

section \<open>WeatherStation\<close>

text \<open>Line 48: the class attribute \<open>_temperature\<close>.\<close>

definition WeatherStation_temperature :: temp where
  "WeatherStation_temperature = None"

text \<open>Lines 86-93: the property \<open>temperature\<close> returns \<open>self._temperature\<close>.\<close>

definition temperature :: "station \<Rightarrow> world \<Rightarrow> temp" where
  "temperature self w =
     (case instance_temperature w self of
        Some v \<Rightarrow> Some v
      | None \<Rightarrow> WeatherStation_temperature)"

text \<open>\<open>self._observers\<close>, read through the instance \<open>self\<close>.\<close>

definition observers :: "station \<Rightarrow> world \<Rightarrow> observer list" where
  "observers self w = WeatherStation_observers w"

text \<open>Lines 50-57.\<close>

definition add_observer :: "station \<Rightarrow> observer \<Rightarrow> world \<Rightarrow> world" where
  "add_observer self ob w =
     print New_observer_added
       (w\<lparr>WeatherStation_observers := observers self w @ [ob]\<rparr>)"

text \<open>
  Lines 59-66. \<open>list.remove\<close> deletes the first element equal to its argument and raises
  \<open>ValueError\<close> when there is none; the print of line 66 is then not reached. The classes
  define no \<open>__eq__\<close>, so equality is identity.
\<close>

definition remove_observer :: "station \<Rightarrow> observer \<Rightarrow> world \<Rightarrow> outcome" where
  "remove_observer self ob w =
     (if ob \<in> set (observers self w)
      then Return (print Observer_removed
             (w\<lparr>WeatherStation_observers := remove1 ob (observers self w)\<rparr>))
      else Raise ValueError w)"

section \<open>The observers\<close>

subsection \<open>Python's \<open>sum\<close>, \<open>max\<close>, \<open>min\<close>, \<open>/\<close> and \<open>:.1f\<close>\<close>

text \<open>\<open>sum(xs)\<close> starts from 0 and adds the elements in order; \<open>int + None\<close> raises.\<close>

fun sum_from :: "int \<Rightarrow> temp list \<Rightarrow> error + int" where
  "sum_from acc [] = Inr acc"
| "sum_from acc (None # xs) = Inl TypeError"
| "sum_from acc (Some x # xs) = sum_from (acc + x) xs"

definition py_sum :: "temp list \<Rightarrow> error + int" where
  "py_sum xs = sum_from 0 xs"

text \<open>
  \<open>max(xs)\<close> raises \<open>ValueError\<close> on an empty list; otherwise it keeps the first element
  and replaces it by each later \<open>item\<close> with \<open>item > kept\<close>. A comparison with \<open>None\<close>
  raises. \<open>min\<close> is the same with \<open>item < kept\<close>.
\<close>

fun max_from :: "temp \<Rightarrow> temp list \<Rightarrow> error + temp" where
  "max_from kept [] = Inr kept"
| "max_from kept (item # xs) =
     (case (item, kept) of
        (Some a, Some b) \<Rightarrow> max_from (if b < a then item else kept) xs
      | _ \<Rightarrow> Inl TypeError)"

definition py_max :: "temp list \<Rightarrow> error + temp" where
  "py_max xs = (case xs of [] \<Rightarrow> Inl ValueError | x # rest \<Rightarrow> max_from x rest)"

fun min_from :: "temp \<Rightarrow> temp list \<Rightarrow> error + temp" where
  "min_from kept [] = Inr kept"
| "min_from kept (item # xs) =
     (case (item, kept) of
        (Some a, Some b) \<Rightarrow> min_from (if a < b then item else kept) xs
      | _ \<Rightarrow> Inl TypeError)"

definition py_min :: "temp list \<Rightarrow> error + temp" where
  "py_min xs = (case xs of [] \<Rightarrow> Inl ValueError | x # rest \<Rightarrow> min_from x rest)"

text \<open>
  A Python \<open>float\<close> is an IEEE 754 binary64 number: \<open>PyFloat m k\<close> stands for
  \<open>m * 2 ^ k\<close>. The sign of a zero is not represented.
\<close>

datatype pyfloat = PyFloat int int

text \<open>\<open>int.bit_length\<close> of a non-negative integer.\<close>

function bit_length :: "int \<Rightarrow> nat" where
  "bit_length n = (if n \<le> 0 then 0 else Suc (bit_length (n div 2)))"
  by pat_completeness auto
termination
  by (relation "measure nat") auto

declare bit_length.simps [simp del]

text \<open>The integer nearest to \<open>p / q\<close> for \<open>0 < q\<close>, a tie going to the even one.\<close>

definition round_half_even :: "int \<Rightarrow> int \<Rightarrow> int" where
  "round_half_even p q =
     (let d = p div q; r = p mod q
      in if 2 * r < q then d
         else if q < 2 * r then d + 1
         else if even d then d else d + 1)"

text \<open>
  \<open>a / n\<close> for an integer \<open>a\<close> and a length \<open>n\<close>: CPython's true division of integers
  returns the binary64 number nearest to the exact quotient (ties to even), raises
  \<open>ZeroDivisionError\<close> for \<open>n = 0\<close> and \<open>OverflowError\<close> when the rounded quotient does
  not fit. \<open>e\<close> is the binary exponent of the quotient, not below that of the smallest
  normal number; the significand has 53 bits. \<open>float_overflow m k\<close>: the magnitude
  \<open>m * 2 ^ k\<close> is \<open>2 ^ 1024\<close> or more, beyond the largest binary64 number.
\<close>

definition float_overflow :: "int \<Rightarrow> int \<Rightarrow> bool" where
  "float_overflow m k = (0 \<le> k \<and> 2 ^ 1024 \<le> m * 2 ^ nat k)"

definition true_div :: "int \<Rightarrow> nat \<Rightarrow> error + pyfloat" where
  "true_div a n =
     (if n = 0 then Inl ZeroDivisionError
      else if a = 0 then Inr (PyFloat 0 0)
      else
        let b = int n;
            d = int (bit_length \<bar>a\<bar>) - int (bit_length b);
            e = (if (if 0 \<le> d then b * 2 ^ nat d \<le> \<bar>a\<bar> else b \<le> \<bar>a\<bar> * 2 ^ nat (- d))
                 then d else d - 1);
            k = max e (- 1022) - 52;
            m = (if 0 \<le> k then round_half_even \<bar>a\<bar> (b * 2 ^ nat k)
                 else round_half_even (\<bar>a\<bar> * 2 ^ nat (- k)) b)
        in if float_overflow m k then Inl OverflowError
           else Inr (PyFloat (sgn a * m) k))"

text \<open>
  \<open>f"{x:.1f}"\<close> prints the decimal with one digit after the point nearest to the exact
  value of \<open>x\<close> (ties to even); the result is that decimal in tenths.
\<close>

fun format_1f :: "pyfloat \<Rightarrow> int" where
  "format_1f (PyFloat m k) =
     (if 0 \<le> k then 10 * m * 2 ^ nat k else round_half_even (10 * m) (2 ^ nat (- k)))"

declare format_1f.simps [simp del]

subsection \<open>CurrentConditionsDisplay\<close>

text \<open>
  Lines 120-127. Nothing happens for a subject that is not a \<open>WeatherStation\<close>. The
  f-string of line 127 converts \<open>subject.temperature\<close>.
\<close>

fun CurrentConditionsDisplay_update :: "subject \<Rightarrow> world \<Rightarrow> outcome" where
  "CurrentConditionsDisplay_update (WeatherStation s) w =
     (if str_raises (temperature s w) then Raise ValueError w
      else Return (print (Current_temperature_is (temperature s w)) w))"
| "CurrentConditionsDisplay_update (OtherSubject k) w = Return w"

subsection \<open>StatisticsDisplay\<close>

text \<open>\<open>self._temperatures\<close>, read through the instance \<open>self\<close>.\<close>

definition temperatures :: "nat \<Rightarrow> world \<Rightarrow> temp list" where
  "temperatures self w = StatisticsDisplay_temperatures w"

text \<open>
  Lines 150-157. The four statements run in order; the first that raises ends the call.
  The f-string of line 157 formats the average, which cannot fail, and converts the
  maximum and the minimum.
\<close>

definition display_statistics :: "nat \<Rightarrow> world \<Rightarrow> outcome" where
  "display_statistics self w =
     (case py_sum (temperatures self w) of
        Inl e \<Rightarrow> Raise e w
      | Inr sum_temp \<Rightarrow>
     (case true_div sum_temp (length (temperatures self w)) of
        Inl e \<Rightarrow> Raise e w
      | Inr avg_temp \<Rightarrow>
     (case py_max (temperatures self w) of
        Inl e \<Rightarrow> Raise e w
      | Inr max_temp \<Rightarrow>
     (case py_min (temperatures self w) of
        Inl e \<Rightarrow> Raise e w
      | Inr min_temp \<Rightarrow>
          if str_raises max_temp \<or> str_raises min_temp then Raise ValueError w
          else Return (print (Avg_Max_Min (format_1f avg_temp) max_temp min_temp) w)))))"

text \<open>Lines 140-148.\<close>

fun StatisticsDisplay_update :: "nat \<Rightarrow> subject \<Rightarrow> world \<Rightarrow> outcome" where
  "StatisticsDisplay_update self (WeatherStation s) w =
     display_statistics self
       (w\<lparr>StatisticsDisplay_temperatures := temperatures self w @ [temperature s w]\<rparr>)"
| "StatisticsDisplay_update self (OtherSubject k) w = Return w"

subsection \<open>Dispatch of \<open>observer.update(subject)\<close>\<close>

text \<open>
  The call \<open>observer.update(self)\<close> of line 74 runs the method of the observer's class.
  \<open>ext\<close> gives the \<open>update\<close> methods of the observers of other classes: \<open>ext k\<close> is the
  method of \<open>OtherObserver k\<close>.
\<close>

type_synonym callbacks = "nat \<Rightarrow> subject \<Rightarrow> world \<Rightarrow> outcome"

fun Observer_update :: "callbacks \<Rightarrow> observer \<Rightarrow> subject \<Rightarrow> world \<Rightarrow> outcome" where
  "Observer_update ext (CurrentConditionsDisplay k) subject w =
     CurrentConditionsDisplay_update subject w"
| "Observer_update ext (StatisticsDisplay k) subject w = StatisticsDisplay_update k subject w"
| "Observer_update ext (OtherObserver k) subject w = ext k subject w"

section \<open>Notification\<close>

text \<open>
  Lines 73-74: \<open>for observer in self._observers: observer.update(self)\<close>. The loop
  iterates over the list object itself, not over a copy: Python's list iterator keeps a
  position \<open>i\<close>, and each step compares \<open>i\<close> with the length the list has then, takes
  the element at \<open>i\<close> and advances. An \<open>update\<close> that raises ends the loop and the call.

  A callback may append to the list for ever, so the loop has a budget of steps: with none
  left the call is \<open>Unfinished\<close>. Beside the outcome the loop returns the log of the calls
  it made: the observer called and what \<open>subject.temperature\<close> was when it was called.
  The log is not part of the program's state; no callback can change it.
\<close>

type_synonym call_log = "(observer \<times> temp) list"

fun notify_loop :: "callbacks \<Rightarrow> station \<Rightarrow> nat \<Rightarrow> nat \<Rightarrow> world \<Rightarrow> call_log \<times> outcome" where
  "notify_loop ext self 0 i w = ([], Unfinished w)"
| "notify_loop ext self (Suc fuel) i w =
     (if i < length (observers self w)
      then
        (let ob = observers self w ! i; c = (ob, temperature self w)
         in case Observer_update ext ob (WeatherStation self) w of
              Return w' \<Rightarrow>
                (case notify_loop ext self fuel (Suc i) w' of (cs, r) \<Rightarrow> (c # cs, r))
            | Raise e w' \<Rightarrow> ([c], Raise e w')
            | Unfinished w' \<Rightarrow> ([c], Unfinished w'))
      else ([], Return w))"

text \<open>Lines 68-74.\<close>

definition notify_observers :: "callbacks \<Rightarrow> nat \<Rightarrow> station \<Rightarrow> world \<Rightarrow> call_log \<times> outcome" where
  "notify_observers ext fuel self w = notify_loop ext self fuel 0 (print Notifying_all_observers w)"

text \<open>
  Lines 82-83 for a temperature that line 82 can print: the print and the assignment.
\<close>

definition assign_temperature :: "station \<Rightarrow> int \<Rightarrow> world \<Rightarrow> world" where
  "assign_temperature self t w =
     (print (Temperature_changed_to t) w)
       \<lparr>instance_temperature := (instance_temperature w)(self := Some t)\<rparr>"

text \<open>
  Lines 76-84. The f-string of line 82 converts \<open>temperature\<close>; when that raises, the
  call ends there: nothing is printed or assigned, and no observer is notified.
\<close>

definition change_temperature ::
    "callbacks \<Rightarrow> nat \<Rightarrow> station \<Rightarrow> int \<Rightarrow> world \<Rightarrow> call_log \<times> outcome" where
  "change_temperature ext fuel self t w =
     (if str_int_raises t then ([], Raise ValueError w)
      else notify_observers ext fuel self (assign_temperature self t w))"

text \<open>An \<open>update\<close> for observers of other classes that does nothing.\<close>

definition no_callbacks :: callbacks where
  "no_callbacks k subject w = Return w"

section \<open>Notions the properties are stated with\<close>

text \<open>
  A notification pass over a copy of the list: the observers of \<open>obs\<close> are called in
  order, whatever happens to the registry meanwhile. This is not in \<open>app.py\<close>; it is
  what a pass over a snapshot taken at the start would do, to compare \<open>notify_loop\<close> with.
\<close>

fun snapshot_loop :: "callbacks \<Rightarrow> station \<Rightarrow> observer list \<Rightarrow> world \<Rightarrow> call_log \<times> outcome" where
  "snapshot_loop ext self [] w = ([], Return w)"
| "snapshot_loop ext self (ob # obs) w =
     (let c = (ob, temperature self w)
      in case Observer_update ext ob (WeatherStation self) w of
           Return w' \<Rightarrow>
             (case snapshot_loop ext self obs w' of (cs, r) \<Rightarrow> (c # cs, r))
         | Raise e w' \<Rightarrow> ([c], Raise e w')
         | Unfinished w' \<Rightarrow> ([c], Unfinished w'))"

text \<open>
  \<open>registry_kept ext self obs w\<close>: in a pass over \<open>obs\<close> from \<open>w\<close>, every \<open>update\<close> that
  returns leaves the list of observers as it found it.
\<close>

fun registry_kept :: "callbacks \<Rightarrow> station \<Rightarrow> observer list \<Rightarrow> world \<Rightarrow> bool" where
  "registry_kept ext self [] w = True"
| "registry_kept ext self (ob # obs) w =
     (case Observer_update ext ob (WeatherStation self) w of
        Return w' \<Rightarrow> observers self w' = observers self w \<and> registry_kept ext self obs w'
      | Raise e w' \<Rightarrow> True
      | Unfinished w' \<Rightarrow> True)"

text \<open>
  \<open>quiet_pass ext self obs w = Some w'\<close>: called in order from \<open>w\<close>, every \<open>update\<close> of
  \<open>obs\<close> returns and leaves the list of observers as it found it, and \<open>w'\<close> is the state
  after the last.
\<close>

fun quiet_pass :: "callbacks \<Rightarrow> station \<Rightarrow> observer list \<Rightarrow> world \<Rightarrow> world option" where
  "quiet_pass ext self [] w = Some w"
| "quiet_pass ext self (ob # obs) w =
     (case Observer_update ext ob (WeatherStation self) w of
        Return w' \<Rightarrow>
          (if observers self w' = observers self w then quiet_pass ext self obs w' else None)
      | Raise e w' \<Rightarrow> None
      | Unfinished w' \<Rightarrow> None)"

text \<open>No \<open>update\<close> of an observer of another class assigns a station's temperature.\<close>

definition keeps_temperature :: "callbacks \<Rightarrow> bool" where
  "keeps_temperature ext =
     (\<forall>k subject w. instance_temperature (world_of (ext k subject w)) = instance_temperature w)"

text \<open>\<open>add_observer\<close> called for each observer of a list, in order.\<close>

fun add_observers :: "station \<Rightarrow> observer list \<Rightarrow> world \<Rightarrow> world" where
  "add_observers self [] w = w"
| "add_observers self (ob # obs) w = add_observers self obs (add_observer self ob w)"

text \<open>
  A client's calls. \<open>perform\<close> gives the state a call leaves, however it ends; \<open>run\<close>
  makes the calls of a list in order, as a client that catches exceptions does.
\<close>

datatype request =
    Add_observer station observer
  | Remove_observer station observer
  | Notify_observers station
  | Change_temperature station int

fun perform :: "callbacks \<Rightarrow> nat \<Rightarrow> request \<Rightarrow> world \<Rightarrow> world" where
  "perform ext fuel (Add_observer s ob) w = add_observer s ob w"
| "perform ext fuel (Remove_observer s ob) w = world_of (remove_observer s ob w)"
| "perform ext fuel (Notify_observers s) w = world_of (snd (notify_observers ext fuel s w))"
| "perform ext fuel (Change_temperature s t) w = world_of (snd (change_temperature ext fuel s t w))"

fun run :: "callbacks \<Rightarrow> nat \<Rightarrow> request list \<Rightarrow> world \<Rightarrow> world" where
  "run ext fuel [] w = w"
| "run ext fuel (r # rs) w = run ext fuel rs (perform ext fuel r w)"

text \<open>
  The temperatures that the calls of a list set on station \<open>s\<close>, in order: those of the
  calls of \<open>change_temperature\<close> on \<open>s\<close> with a temperature that line 82 can print.
\<close>

fun sets_of :: "station \<Rightarrow> request list \<Rightarrow> int list" where
  "sets_of s [] = []"
| "sets_of s (Change_temperature s' t # rs) =
     (if s' = s \<and> \<not> str_int_raises t then t # sets_of s rs else sets_of s rs)"
| "sets_of s (r # rs) = sets_of s rs"

text \<open>
  An observer of a class outside \<open>app.py\<close> whose \<open>update\<close> is
  \<open>subject.remove_observer(self)\<close>.
\<close>

fun self_removing :: callbacks where
  "self_removing k (WeatherStation s) w = remove_observer s (OtherObserver k) w"
| "self_removing k (OtherSubject j) w = Return w"

text \<open>
  Lines 163-176, the client code: one station, the two displays attached in this order,
  and the temperature changed to 24, 29 and 15. \<open>fuel\<close> is the budget of each pass.
\<close>

definition client_start :: world where
  "client_start =
     add_observer 0 (StatisticsDisplay 0) (add_observer 0 (CurrentConditionsDisplay 0) world0)"




text \<open>The client's state when its first pass begins: lines 82-83 of the first change done.\<close>

definition client_at_24 :: world where
  "client_at_24 = assign_temperature 0 24 client_start"

text \<open>
  A station with three observers, the second of a class whose \<open>update\<close> removes the
  observer itself.
\<close>

definition three_observers :: world where
  "three_observers =
     add_observers 0 [CurrentConditionsDisplay 1, OtherObserver 2, CurrentConditionsDisplay 3] world0"

text \<open>
  A client that attaches three observers and calls \<open>notify_observers\<close> before any
  temperature is set: the statistics display appends \<open>None\<close> and \<open>sum\<close> raises.
\<close>

definition early_notify :: world where
  "early_notify =
     run no_callbacks 4
       [Add_observer 0 (CurrentConditionsDisplay 1), Add_observer 0 (StatisticsDisplay 1),
        Add_observer 0 (CurrentConditionsDisplay 2), Notify_observers 0] world0"

text \<open>A client's calls on three stations, the last with an integer of 4301 digits.\<close>

definition some_requests :: "request list" where
  "some_requests =
     [Add_observer 0 (CurrentConditionsDisplay 0), Change_temperature 0 24,
      Change_temperature 1 0, Remove_observer 0 (StatisticsDisplay 0),
      Change_temperature 0 29, Notify_observers 2, Change_temperature 0 15,
      Change_temperature 0 (10 ^ int_max_str_digits)]"

section \<open>Basic facts\<close>

lemma observers_print [simp]: "observers self (print l w) = observers self w"
  by (simp add: observers_def print_def)

lemma observers_assign_temperature [simp]:
  "observers self (assign_temperature s t w) = observers self w"
  by (simp add: observers_def assign_temperature_def print_def)

lemma observers_add_observer [simp]:
  "observers s (add_observer self ob w) = observers s w @ [ob]"
  by (simp add: observers_def add_observer_def print_def)

lemma observers_add_observers [simp]:
  "observers s (add_observers self obs w) = observers s w @ obs"
  by (induction obs arbitrary: w) simp_all

lemma temperature_print [simp]: "temperature self (print l w) = temperature self w"
  by (simp add: temperature_def print_def)

lemma temperature_assign_temperature [simp]:
  "temperature s (assign_temperature self t w) = (if s = self then Some t else temperature s w)"
  by (simp add: temperature_def assign_temperature_def print_def)

lemma temperature_add_observer [simp]:
  "temperature s (add_observer self ob w) = temperature s w"
  by (simp add: temperature_def add_observer_def print_def)

lemma temperature_remove_observer [simp]:
  "temperature s (world_of (remove_observer self ob w)) = temperature s w"
  by (simp add: temperature_def remove_observer_def print_def)

lemma keeps_temperature_no_callbacks: "keeps_temperature no_callbacks"
  by (simp add: keeps_temperature_def no_callbacks_def)

text \<open>Integers below 1000 can be printed; \<open>10 ^ 4300\<close>, of 4301 digits, cannot.\<close>

lemma str_int_small: "\<bar>n\<bar> < 1000 \<Longrightarrow> str_int_raises n = False"
proof -
  assume a: "\<bar>n\<bar> < 1000"
  have "(10::int) ^ 3 \<le> 10 ^ int_max_str_digits"
    by (rule power_increasing) (simp_all add: int_max_str_digits_def)
  then show ?thesis
    using a by (simp add: str_int_raises_def)
qed

lemma str_int_raises_limit: "str_int_raises (10 ^ int_max_str_digits)"
  by (simp add: str_int_raises_def)

section \<open>The loop over the live list and a pass over a snapshot\<close>

lemma notify_loop_snapshot:
  "registry_kept ext self (drop i (observers self w)) w \<Longrightarrow>
   length (observers self w) - i < fuel \<Longrightarrow>
   notify_loop ext self fuel i w = snapshot_loop ext self (drop i (observers self w)) w"
proof (induction fuel arbitrary: i w)
  case 0
  then show ?case by simp
next
  case (Suc fuel)
  show ?case
  proof (cases "i < length (observers self w)")
    case False
    then show ?thesis by simp
  next
    case True
    let ?ob = "observers self w ! i"
    have d: "drop i (observers self w) = ?ob # drop (Suc i) (observers self w)"
      using True by (simp add: Cons_nth_drop_Suc)
    show ?thesis
    proof (cases "Observer_update ext ?ob (WeatherStation self) w")
      case (Return w')
      from Suc.prems(1) have k: "observers self w' = observers self w"
        and r: "registry_kept ext self (drop (Suc i) (observers self w')) w'"
        by (simp_all add: d Return)
      from Suc.prems(2) True have "length (observers self w') - Suc i < fuel"
        by (simp add: k)
      from Suc.IH [OF r this] show ?thesis
        using True by (simp add: d Return k Let_def)
    next
      case (Raise e w')
      then show ?thesis using True by (simp add: d Let_def)
    next
      case (Unfinished w')
      then show ?thesis using True by (simp add: d Let_def)
    qed
  qed
qed

lemma quiet_pass_observers:
  "quiet_pass ext self obs w = Some w' \<Longrightarrow> observers self w' = observers self w"
  by (induction obs arbitrary: w) (auto split: outcome.splits if_splits)

lemma quiet_pass_registry_kept:
  "quiet_pass ext self xs w = Some w' \<Longrightarrow>
   registry_kept ext self (xs @ ys) w = registry_kept ext self ys w'"
  by (induction xs arbitrary: w) (auto split: outcome.splits if_splits)

lemma quiet_pass_snapshot:
  "quiet_pass ext self xs w = Some w' \<Longrightarrow>
   map fst (fst (snapshot_loop ext self (xs @ ys) w)) = xs @ map fst (fst (snapshot_loop ext self ys w')) \<and>
   snd (snapshot_loop ext self (xs @ ys) w) = snd (snapshot_loop ext self ys w')"
  by (induction xs arbitrary: w) (auto simp: Let_def case_prod_beta split: outcome.splits if_splits)

lemma snapshot_loop_Return:
  "snd (snapshot_loop ext self obs w) = Return w' \<Longrightarrow>
   map fst (fst (snapshot_loop ext self obs w)) = obs"
  by (induction obs arbitrary: w) (auto simp: Let_def case_prod_beta split: outcome.splits)

lemma Observer_update_instance_temperature:
  "keeps_temperature ext \<Longrightarrow>
   instance_temperature (world_of (Observer_update ext ob subject w)) = instance_temperature w"
  by (cases ob; cases subject)
     (auto simp: keeps_temperature_def print_def display_statistics_def temperatures_def
           split: sum.splits if_splits)

lemma Observer_update_temperature:
  "keeps_temperature ext \<Longrightarrow>
   temperature s (world_of (Observer_update ext ob subject w)) = temperature s w"
  by (simp add: temperature_def Observer_update_instance_temperature)

lemma notify_loop_temperature:
  "keeps_temperature ext \<Longrightarrow>
   list_all (\<lambda>c. snd c = temperature self w) (fst (notify_loop ext self fuel i w)) \<and>
   temperature s (world_of (snd (notify_loop ext self fuel i w))) = temperature s w"
proof (induction fuel arbitrary: i w)
  case 0
  then show ?case by simp
next
  case (Suc fuel)
  show ?case
  proof (cases "i < length (observers self w)")
    case False
    then show ?thesis by simp
  next
    case True
    let ?ob = "observers self w ! i"
    note t = Observer_update_temperature [OF Suc.prems, of _ ?ob "WeatherStation self" w]
    show ?thesis
    proof (cases "Observer_update ext ?ob (WeatherStation self) w")
      case (Return w')
      with t have "\<And>s. temperature s w' = temperature s w" by simp
      with Suc.IH [OF Suc.prems, of w' "Suc i"] show ?thesis
        using True Return by (simp add: Let_def case_prod_beta)
    next
      case (Raise e w')
      with t show ?thesis using True by (simp add: Let_def)
    next
      case (Unfinished w')
      with t show ?thesis using True by (simp add: Let_def)
    qed
  qed
qed

section \<open>Evaluating the model\<close>

lemma notify_loop_numeral:
  "notify_loop ext self (numeral k) i w =
     (if i < length (observers self w)
      then
        (let ob = observers self w ! i; c = (ob, temperature self w)
         in case Observer_update ext ob (WeatherStation self) w of
              Return w' \<Rightarrow>
                (case notify_loop ext self (pred_numeral k) (Suc i) w' of (cs, r) \<Rightarrow> (c # cs, r))
            | Raise e w' \<Rightarrow> ([c], Raise e w')
            | Unfinished w' \<Rightarrow> ([c], Unfinished w'))
      else ([], Return w))"
  by (simp add: numeral_eq_Suc)

lemmas station_defs =
  change_temperature_def notify_observers_def assign_temperature_def add_observer_def
  remove_observer_def observers_def temperature_def WeatherStation_temperature_def print_def
  world0_def notify_loop_numeral Let_def str_int_small

lemmas statistics_defs =
  temperatures_def display_statistics_def py_sum_def py_max_def py_min_def


lemma bit_length_values:
  "bit_length 68 = 7" "bit_length 53 = 6" "bit_length 24 = 5"
  "bit_length 3 = 2" "bit_length 2 = 2" "bit_length 1 = 1"
  by (simp_all add: bit_length.simps)

text \<open>
  The averages of the client's three passes as binary64 numbers: 24 and 26.5 are exact,
  68 / 3 is rounded to \<open>6380099472108203 / 2 ^ 48\<close>.
\<close>

lemma true_div_values:
  "true_div 24 (Suc 0) = Inr (PyFloat 6755399441055744 (- 48))"
  "true_div 53 (Suc (Suc 0)) = Inr (PyFloat 7459086882832384 (- 48))"
  "true_div 68 (Suc (Suc (Suc 0))) = Inr (PyFloat 6380099472108203 (- 48))"
  by (simp_all add: true_div_def bit_length_values round_half_even_def float_overflow_def Let_def)

lemma format_1f_values:
  "format_1f (PyFloat 6755399441055744 (- 48)) = 240"
  "format_1f (PyFloat 7459086882832384 (- 48)) = 265"
  "format_1f (PyFloat 6380099472108203 (- 48)) = 227"
  by (simp_all add: format_1f.simps round_half_even_def Let_def)

lemmas statistics_values = statistics_defs true_div_values format_1f_values str_int_small

lemma client_start_eq:
  "client_start =
     \<lparr>WeatherStation_observers = [CurrentConditionsDisplay 0, StatisticsDisplay 0],
      instance_temperature = (\<lambda>s. None), StatisticsDisplay_temperatures = [],
      stdout = [New_observer_added, New_observer_added]\<rparr>"
  by (simp add: client_start_def station_defs)

lemma client_at_24_eq:
  "client_at_24 =
     \<lparr>WeatherStation_observers = [CurrentConditionsDisplay 0, StatisticsDisplay 0],
      instance_temperature = (\<lambda>s. None)(0 := Some 24), StatisticsDisplay_temperatures = [],
      stdout = [New_observer_added, New_observer_added, Temperature_changed_to 24]\<rparr>"
  by (simp add: client_at_24_def client_start_def station_defs)

lemma three_observers_eq:
  "three_observers =
     \<lparr>WeatherStation_observers =
        [CurrentConditionsDisplay 1, OtherObserver 2, CurrentConditionsDisplay 3],
      instance_temperature = (\<lambda>s. None), StatisticsDisplay_temperatures = [],
      stdout = [New_observer_added, New_observer_added, New_observer_added]\<rparr>"
  by (simp add: three_observers_def add_observer_def observers_def print_def world0_def)

lemma early_notify_eq:
  "early_notify =
     \<lparr>WeatherStation_observers =
        [CurrentConditionsDisplay 1, StatisticsDisplay 1, CurrentConditionsDisplay 2],
      instance_temperature = (\<lambda>s. None), StatisticsDisplay_temperatures = [None],
      stdout = [New_observer_added, New_observer_added, New_observer_added,
        Notifying_all_observers, Current_temperature_is None]\<rparr>"
  by (simp add: early_notify_def station_defs statistics_values)

section \<open>One registry for all stations (C1)\<close>

text \<open>
  C1 says that every \<open>WeatherStation\<close> has a registry of its own: \<open>add_observer\<close> on one
  station does not change the observers of another, and a change of temperature on a
  station does not notify observers added only to another. The code does not do that:
  the list of line 47 belongs to the class, and every instance appends to it and
  iterates over it. After \<open>add_observer\<close> on station 1 alone, in the state the module
  starts in, station 2 has the observer too, and \<open>change_temperature(7)\<close> on station 2
  calls its \<open>update\<close>.
\<close>

theorem registry_shared_between_stations:
  "observers 2 (add_observer 1 (CurrentConditionsDisplay 0) world0) = [CurrentConditionsDisplay 0] \<and>
   fst (change_temperature no_callbacks 2 2 7 (add_observer 1 (CurrentConditionsDisplay 0) world0))
     = [(CurrentConditionsDisplay 0, Some 7)]"
  by (simp add: station_defs)

section \<open>Callbacks that change the registry during a pass (C2)\<close>

text \<open>
  C2 says that a pass notifies exactly the observers that are in the sequence when it
  begins, also when an \<open>update\<close> removes its observer during the pass. The loop of line 73
  iterates over the list itself: with the registry \<open>[o1, o2, o3]\<close> and an \<open>o2\<close> whose
  \<open>update\<close> removes \<open>o2\<close>, the list is \<open>[o1, o3]\<close> when the iterator reaches position 2,
  and the pass ends without a call of \<open>o3\<close>.
\<close>

theorem self_removal_skips_next_observer:
  "observers 0 three_observers
     = [CurrentConditionsDisplay 1, OtherObserver 2, CurrentConditionsDisplay 3] \<and>
   map fst (fst (notify_observers self_removing 10 0 three_observers))
     = [CurrentConditionsDisplay 1, OtherObserver 2] \<and>
   snd (notify_observers self_removing 10 0 three_observers)
     = Return \<lparr>WeatherStation_observers = [CurrentConditionsDisplay 1, CurrentConditionsDisplay 3],
         instance_temperature = (\<lambda>s. None), StatisticsDisplay_temperatures = [],
         stdout = [New_observer_added, New_observer_added, New_observer_added,
           Notifying_all_observers, Current_temperature_is None, Observer_removed]\<rparr>"
  by (simp add: three_observers_eq station_defs)

text \<open>
  C2 as amended: \<open>notify_observers\<close> iterates over the live sequence by position. When
  every \<open>update\<close> that returns during the pass leaves the sequence of observers as it found
  it, the pass is the pass over a snapshot taken at its start: with a budget above the
  length of the sequence it ends as that pass ends, with the same calls in the same order,
  and when it returns, the observers called are those of the sequence at the start, each
  once per occurrence, in order.
\<close>

theorem notify_observers_is_snapshot_pass:
  assumes "registry_kept ext self (observers self w) (print Notifying_all_observers w)"
    and "length (observers self w) < fuel"
  shows "notify_observers ext fuel self w
           = snapshot_loop ext self (observers self w) (print Notifying_all_observers w) \<and>
         (\<forall>w'. snd (notify_observers ext fuel self w) = Return w' \<longrightarrow>
                map fst (fst (notify_observers ext fuel self w)) = observers self w)"
proof -
  have e: "notify_observers ext fuel self w
      = snapshot_loop ext self (observers self w) (print Notifying_all_observers w)"
    using notify_loop_snapshot [of ext self 0 "print Notifying_all_observers w" fuel] assms
    by (simp add: notify_observers_def)
  show ?thesis
    unfolding e by (auto dest: snapshot_loop_Return)
qed

theorem notify_observers_is_snapshot_pass_witness:
  "registry_kept no_callbacks 0 (observers 0 client_at_24)
     (print Notifying_all_observers client_at_24) \<and>
   length (observers 0 client_at_24) < 3 \<and>
   notify_observers no_callbacks 3 0 client_at_24
     = snapshot_loop no_callbacks 0 (observers 0 client_at_24)
         (print Notifying_all_observers client_at_24) \<and>
   map fst (fst (notify_observers no_callbacks 3 0 client_at_24))
     = [CurrentConditionsDisplay 0, StatisticsDisplay 0]"
proof -
  have h1: "registry_kept no_callbacks 0 (observers 0 client_at_24)
      (print Notifying_all_observers client_at_24)"
    by (simp add: client_at_24_eq observers_def print_def temperature_def statistics_values)
  have h2: "length (observers 0 client_at_24) < 3"
    by (simp add: client_at_24_eq observers_def)
  note t = notify_observers_is_snapshot_pass [OF h1 h2]
  have r: "snd (notify_observers no_callbacks 3 0 client_at_24)
      = Return \<lparr>WeatherStation_observers = [CurrentConditionsDisplay 0, StatisticsDisplay 0],
          instance_temperature = (\<lambda>s. None)(0 := Some 24),
          StatisticsDisplay_temperatures = [Some 24],
          stdout = [New_observer_added, New_observer_added, Temperature_changed_to 24,
            Notifying_all_observers, Current_temperature_is (Some 24),
            Avg_Max_Min 240 (Some 24) (Some 24)]\<rparr>"
    by (simp add: client_at_24_eq station_defs statistics_values)
  have o: "observers 0 client_at_24 = [CurrentConditionsDisplay 0, StatisticsDisplay 0]"
    by (simp add: client_at_24_eq observers_def)
  from t r have c2: "map fst (fst (notify_observers no_callbacks 3 0 client_at_24))
     = [CurrentConditionsDisplay 0, StatisticsDisplay 0]"
    unfolding o by blast
  from t have c1: "notify_observers no_callbacks 3 0 client_at_24
     = snapshot_loop no_callbacks 0 (observers 0 client_at_24)
         (print Notifying_all_observers client_at_24)"
    by (rule conjunct1)
  show ?thesis
    by (intro conjI h1 h2 c1 c2)
qed

section \<open>Removing an observer that is not registered (C3)\<close>

text \<open>
  C3 says that \<open>remove_observer\<close> of an observer that is not in the registry is a silent
  no-op. In the code it is not silent: \<open>list.remove\<close> raises \<open>ValueError\<close>, as on the
  empty registry here.
\<close>

theorem remove_absent_counterexample:
  "CurrentConditionsDisplay 0 \<notin> set (observers 0 world0) \<and>
   remove_observer 0 (CurrentConditionsDisplay 0) world0 = Raise ValueError world0"
  by (simp add: remove_observer_def observers_def world0_def)

text \<open>
  C3 as amended: \<open>remove_observer\<close> of an observer that is not in the registry raises
  \<open>ValueError\<close>; the state is left as it was: the sequence of observers is unchanged and
  nothing is printed.
\<close>

theorem remove_absent_raises:
  "ob \<notin> set (observers self w) \<Longrightarrow> remove_observer self ob w = Raise ValueError w"
  by (simp add: remove_observer_def)

theorem remove_absent_raises_witness:
  "CurrentConditionsDisplay 0 \<notin> set (observers 0 (add_observer 0 (StatisticsDisplay 0) world0)) \<and>
   remove_observer 0 (CurrentConditionsDisplay 0) (add_observer 0 (StatisticsDisplay 0) world0)
     = Raise ValueError (add_observer 0 (StatisticsDisplay 0) world0)"
proof -
  have h: "CurrentConditionsDisplay 0 \<notin> set (observers 0 (add_observer 0 (StatisticsDisplay 0) world0))"
    by (simp add: observers_def add_observer_def print_def world0_def)
  show ?thesis
    by (rule conjI [OF h remove_absent_raises [OF h]])
qed

section \<open>One history for all statistics displays (C4)\<close>

text \<open>
  C4 says that the history of a \<open>StatisticsDisplay\<close> is as long as the number of
  notifications that instance received, and that a notification of one instance does not
  grow the history of another. The code does not do that: the list of line 138 belongs
  to the class, and every instance appends to it. With display 1 alone attached to the
  station, \<open>change_temperature(24)\<close> calls display 1 only, and the history read through
  display 2, which was never notified, goes from empty to \<open>[24]\<close>.
\<close>

theorem history_shared_between_displays:
  "temperatures 2 (add_observer 0 (StatisticsDisplay 1) world0) = [] \<and>
   fst (change_temperature no_callbacks 2 0 24 (add_observer 0 (StatisticsDisplay 1) world0))
     = [(StatisticsDisplay 1, Some 24)] \<and>
   temperatures 2
     (world_of (snd (change_temperature no_callbacks 2 0 24
        (add_observer 0 (StatisticsDisplay 1) world0))))
     = [Some 24]"
  by (simp add: station_defs statistics_values)

section \<open>Temperatures too long to print\<close>

text \<open>
  \<open>2 ^ 1024\<close> has 309 digits, so it can be printed, and its quotient by 1 is beyond
  the binary64 numbers.
\<close>

lemma bit_length_power2: "bit_length (2 ^ n) = Suc n"
proof (induction n)
  case 0
  show ?case by (simp add: bit_length.simps)
next
  case (Suc n)
  have "bit_length (2 ^ Suc n) = Suc (bit_length (2 ^ Suc n div 2))"
    by (subst bit_length.simps) simp
  then show ?case using Suc by simp
qed

lemma big_printable: "str_int_raises (2 ^ 1024) = False"
proof -
  have "(2::int) ^ 1024 < 10 ^ 1024"
    by (rule power_strict_mono) simp_all
  moreover have "(10::int) ^ 1024 \<le> 10 ^ int_max_str_digits"
    by (rule power_increasing) (simp_all add: int_max_str_digits_def)
  moreover have "\<bar>(2::int) ^ 1024\<bar> = 2 ^ 1024"
    by (rule abs_of_nonneg) (rule zero_le_power, simp)
  ultimately have "\<not> 10 ^ int_max_str_digits \<le> \<bar>(2::int) ^ 1024\<bar>"
    by linarith
  then show ?thesis
    unfolding str_int_raises_def by blast
qed

lemma big_overflows: "true_div (2 ^ 1024) (Suc 0) = Inl OverflowError"
proof -
  have b: "bit_length \<bar>2 ^ 1024\<bar> = 1025"
    using bit_length_power2 [of 1024] by simp
  have b1: "bit_length 1 = 1"
    by (simp add: bit_length.simps)
  show ?thesis
    unfolding true_div_def Let_def b
    by (simp add: b1 round_half_even_def float_overflow_def)
qed

text \<open>
  A call of \<open>change_temperature\<close> with an integer that line 82 cannot print raises there
  and changes nothing.
\<close>

lemma change_temperature_unprintable:
  "str_int_raises t \<Longrightarrow> change_temperature ext fuel self t w = ([], Raise ValueError w)"
  by (simp add: change_temperature_def)

lemma change_temperature_printable:
  "\<not> str_int_raises t \<Longrightarrow>
   change_temperature ext fuel self t w
     = notify_loop ext self fuel 0 (print Notifying_all_observers (assign_temperature self t w))"
  by (simp add: change_temperature_def notify_observers_def)

section \<open>The temperature read is the last one set (C5)\<close>

text \<open>
  C5 says that after any sequence of calls of \<open>change_temperature\<close> the accessor returns
  the value of the most recent call. In the code the print of line 82 comes before the
  assignment of line 83, and it raises \<open>ValueError\<close> for an integer of more than 4300
  digits: after \<open>change_temperature(24)\<close> and \<open>change_temperature(10 ** 4300)\<close> the
  accessor returns 24, not the value of the most recent call.
\<close>

theorem oversized_temperature_not_assigned:
  "temperature 0
     (run no_callbacks 3
        [Change_temperature 0 24, Change_temperature 0 (10 ^ int_max_str_digits)] world0)
     = Some 24 \<and>
   temperature 0
     (run no_callbacks 3
        [Change_temperature 0 24, Change_temperature 0 (10 ^ int_max_str_digits)] world0)
     \<noteq> Some (10 ^ int_max_str_digits)"
proof -
  have a: "temperature 0
     (run no_callbacks 3
        [Change_temperature 0 24, Change_temperature 0 (10 ^ int_max_str_digits)] world0)
     = Some 24"
    by (simp add: change_temperature_unprintable str_int_raises_limit station_defs)
  have "str_int_raises 24 = False"
    by (simp add: str_int_small)
  then have "(24::int) \<noteq> 10 ^ int_max_str_digits"
    using str_int_raises_limit by metis
  then show ?thesis
    unfolding a by simp
qed

lemma perform_temperature:
  assumes "keeps_temperature ext"
  shows "temperature s (perform ext fuel r w)
    = (if sets_of s [r] = [] then temperature s w else Some (last (sets_of s [r])))"
  using notify_loop_temperature [OF assms]
  by (cases r) (simp_all add: notify_observers_def change_temperature_def)

lemma sets_of_Cons: "sets_of s (r # rs) = sets_of s [r] @ sets_of s rs"
  by (cases r) simp_all

lemma run_temperature:
  assumes "keeps_temperature ext"
  shows "temperature s (run ext fuel rs w)
    = (if sets_of s rs = [] then temperature s w else Some (last (sets_of s rs)))"
proof (induction rs arbitrary: w)
  case Nil
  show ?case by simp
next
  case (Cons r rs)
  have "temperature s (run ext fuel (r # rs) w)
      = temperature s (run ext fuel rs (perform ext fuel r w))"
    by simp
  also have "\<dots> = (if sets_of s rs = [] then temperature s (perform ext fuel r w)
      else Some (last (sets_of s rs)))"
    by (rule Cons.IH)
  also have "\<dots> = (if sets_of s (r # rs) = [] then temperature s w
      else Some (last (sets_of s (r # rs))))"
    using sets_of_Cons [of s r rs] by (simp add: perform_temperature [OF assms])
  finally show ?case .
qed

text \<open>
  C5 as amended: \<open>temperature\<close> returns \<open>None\<close> for a station on which no call of
  \<open>change_temperature\<close> with an integer of at most 4300 digits was made, and otherwise
  the value of the most recent such call; a call with a longer integer raises
  \<open>ValueError\<close> and assigns nothing. \<open>None\<close> is not the number zero. The calls are any
  sequence of calls of a client on any stations, starting when the module is loaded, each
  with any budget and however it ends; the observers of other classes do not assign a
  station's temperature themselves.
\<close>

theorem temperature_is_last_set:
  assumes "keeps_temperature ext"
  shows "temperature s (run ext fuel rs world0)
           = (if sets_of s rs = [] then None else Some (last (sets_of s rs))) \<and>
         WeatherStation_temperature \<noteq> Some 0"
  using run_temperature [OF assms, of s fuel rs world0]
  by (simp add: temperature_def world0_def WeatherStation_temperature_def)

theorem temperature_is_last_set_witness:
  "keeps_temperature no_callbacks \<and>
   temperature 0 (run no_callbacks 5 some_requests world0) = Some 15 \<and>
   temperature 1 (run no_callbacks 5 some_requests world0) = Some 0 \<and>
   temperature 2 (run no_callbacks 5 some_requests world0) = None"
proof -
  note h = keeps_temperature_no_callbacks
  have c0: "temperature 0 (run no_callbacks 5 some_requests world0) = Some 15"
    using temperature_is_last_set [OF h, of 0 5 some_requests]
    by (simp add: some_requests_def str_int_small str_int_raises_limit)
  have c1: "temperature 1 (run no_callbacks 5 some_requests world0) = Some 0"
    using temperature_is_last_set [OF h, of 1 5 some_requests]
    by (simp add: some_requests_def str_int_small str_int_raises_limit)
  have c2: "temperature 2 (run no_callbacks 5 some_requests world0) = None"
    using temperature_is_last_set [OF h, of 2 5 some_requests]
    by (simp add: some_requests_def str_int_small str_int_raises_limit)
  show ?thesis
    by (intro conjI h c0 c1 c2)
qed

section \<open>Notification in registration order (C6)\<close>

lemma overflow_in_first_update:
  assumes "str_int_raises T = False" and "true_div T (Suc 0) = Inl OverflowError"
  shows "change_temperature no_callbacks 3 0 T
           (add_observers 0 [StatisticsDisplay 0, CurrentConditionsDisplay 0] world0)
         = ([(StatisticsDisplay 0, Some T)],
            Raise OverflowError
              \<lparr>WeatherStation_observers = [StatisticsDisplay 0, CurrentConditionsDisplay 0],
               instance_temperature = (\<lambda>s. None)(0 := Some T),
               StatisticsDisplay_temperatures = [Some T],
               stdout = [New_observer_added, New_observer_added,
                 Temperature_changed_to T, Notifying_all_observers]\<rparr>)"
  using assms by (simp add: station_defs statistics_defs)

text \<open>
  C6 says that after \<open>add_observer\<close> of \<open>o1, ..., on\<close> on a fresh subject, one
  \<open>change_temperature\<close> calls \<open>update\<close> on every one of them, whatever the observers and
  the value. In the code an \<open>update\<close> that raises ends the pass: in a fresh program, with
  a \<open>StatisticsDisplay\<close> and then a \<open>CurrentConditionsDisplay\<close> attached,
  \<open>change_temperature(2 ** 1024)\<close> calls the statistics, whose division of line 154
  raises \<open>OverflowError\<close>, and the display is not called.
\<close>

theorem overflow_ends_registration_pass:
  "observers 0 world0 = [] \<and>
   change_temperature no_callbacks 3 0 (2 ^ 1024)
       (add_observers 0 [StatisticsDisplay 0, CurrentConditionsDisplay 0] world0)
     = ([(StatisticsDisplay 0, Some (2 ^ 1024))],
        Raise OverflowError
          \<lparr>WeatherStation_observers = [StatisticsDisplay 0, CurrentConditionsDisplay 0],
           instance_temperature = (\<lambda>s. None)(0 := Some (2 ^ 1024)),
           StatisticsDisplay_temperatures = [Some (2 ^ 1024)],
           stdout = [New_observer_added, New_observer_added,
             Temperature_changed_to (2 ^ 1024), Notifying_all_observers]\<rparr>)"
proof -
  have "observers 0 world0 = []"
    by (simp add: observers_def world0_def)
  then show ?thesis
    by (rule conjI [OF _ overflow_in_first_update [OF big_printable big_overflows]])
qed

text \<open>
  C6 as amended: after \<open>add_observer\<close> of \<open>o1, ..., on\<close> on a station whose registry was
  empty, one \<open>change_temperature\<close> with an integer of at most 4300 digits calls \<open>update\<close>
  on \<open>o1, ..., on\<close> in this order, an observer added twice being called twice, and
  returns, provided that each \<open>update\<close>, called in this order from the state in which the
  pass begins, returns and leaves the registry as it is. The budget is above the number
  of observers.
\<close>

theorem registration_order:
  assumes "observers self w = []"
    and "\<not> str_int_raises t"
    and "quiet_pass ext self obs
           (print Notifying_all_observers
              (assign_temperature self t (add_observers self obs w))) = Some w'"
    and "length obs < fuel"
  shows "map fst (fst (change_temperature ext fuel self t (add_observers self obs w))) = obs \<and>
         snd (change_temperature ext fuel self t (add_observers self obs w)) = Return w'"
proof -
  let ?w = "print Notifying_all_observers (assign_temperature self t (add_observers self obs w))"
  have "registry_kept ext self (obs @ []) ?w"
    using quiet_pass_registry_kept [OF assms(3), of "[]"] by simp
  then have "notify_loop ext self fuel 0 ?w = snapshot_loop ext self obs ?w"
    using notify_loop_snapshot [of ext self 0 ?w fuel] assms(1,4) by simp
  moreover have "map fst (fst (snapshot_loop ext self (obs @ []) ?w)) = obs @ [] \<and>
      snd (snapshot_loop ext self (obs @ []) ?w) = Return w'"
    using quiet_pass_snapshot [OF assms(3), of "[]"] by simp
  ultimately show ?thesis
    by (simp add: change_temperature_printable [OF assms(2)])
qed

theorem registration_order_witness:
  "observers 0 world0 = [] \<and>
   \<not> str_int_raises 24 \<and>
   length [CurrentConditionsDisplay 0, StatisticsDisplay 0, CurrentConditionsDisplay 0] < (4 :: nat) \<and>
   map fst (fst (change_temperature no_callbacks 4 0 24
       (add_observers 0
          [CurrentConditionsDisplay 0, StatisticsDisplay 0, CurrentConditionsDisplay 0] world0)))
     = [CurrentConditionsDisplay 0, StatisticsDisplay 0, CurrentConditionsDisplay 0]"
proof -
  let ?obs = "[CurrentConditionsDisplay 0, StatisticsDisplay 0, CurrentConditionsDisplay 0]"
  have h1: "observers 0 world0 = []"
    by (simp add: observers_def world0_def)
  have h2: "\<not> str_int_raises 24"
    by (simp add: str_int_small)
  have h3: "quiet_pass no_callbacks 0 ?obs
      (print Notifying_all_observers (assign_temperature 0 24 (add_observers 0 ?obs world0)))
    = Some \<lparr>WeatherStation_observers = ?obs,
          instance_temperature = (\<lambda>s. None)(0 := Some 24),
          StatisticsDisplay_temperatures = [Some 24],
          stdout = [New_observer_added, New_observer_added, New_observer_added,
            Temperature_changed_to 24, Notifying_all_observers,
            Current_temperature_is (Some 24), Avg_Max_Min 240 (Some 24) (Some 24),
            Current_temperature_is (Some 24)]\<rparr>"
    by (simp add: station_defs statistics_values)
  have h4: "length ?obs < (4 :: nat)"
    by simp
  from registration_order [OF h1 h2 h3 h4]
  have c: "map fst (fst (change_temperature no_callbacks 4 0 24 (add_observers 0 ?obs world0)))
      = ?obs"
    by (rule conjunct1)
  show ?thesis
    by (intro conjI h1 h2 h4 c)
qed

section \<open>The temperature is assigned before the pass (C7)\<close>

text \<open>
  C7 says that \<open>change_temperature\<close> accepts any value of the declared type, assigns it
  and then notifies. In the code the print of line 82 comes first and raises
  \<open>ValueError\<close> for an integer of more than 4300 digits: the client's station, with its
  two observers attached, keeps no temperature after \<open>change_temperature(10 ** 4300)\<close>,
  and no observer is notified.
\<close>

theorem oversized_temperature_rejected:
  "observers 0 client_start = [CurrentConditionsDisplay 0, StatisticsDisplay 0] \<and>
   change_temperature no_callbacks 3 0 (10 ^ int_max_str_digits) client_start
     = ([], Raise ValueError client_start) \<and>
   temperature 0 client_start = None"
  by (simp add: change_temperature_unprintable str_int_raises_limit client_start_eq
      observers_def temperature_def WeatherStation_temperature_def)

text \<open>
  C7 as amended: \<open>change_temperature\<close> checks nothing about the value itself, but its
  first statement prints it: for an integer of more than 4300 digits the call raises
  \<open>ValueError\<close> there, and nothing is assigned or notified. For every other integer \<open>t\<close>
  it assigns \<open>t\<close> and then notifies: every observer called in the pass finds
  \<open>subject.temperature\<close> equal to \<open>t\<close> when its \<open>update\<close> is called, \<open>t\<close> is the
  station's temperature in the state the call leaves, however far the pass got, and when
  every \<open>update\<close> that returns leaves the registry as it found it and the budget is above
  the length of the registry, the call is the pass over the observers registered when it
  began, in order, from the state in which \<open>t\<close> is assigned. The observers of other
  classes do not assign a station's temperature themselves.
\<close>

theorem observers_read_new_temperature:
  assumes "keeps_temperature ext"
  shows "if str_int_raises t
         then change_temperature ext fuel self t w = ([], Raise ValueError w)
         else list_all (\<lambda>c. snd c = Some t) (fst (change_temperature ext fuel self t w)) \<and>
              temperature self (world_of (snd (change_temperature ext fuel self t w))) = Some t \<and>
              (registry_kept ext self (observers self w)
                 (print Notifying_all_observers (assign_temperature self t w)) \<and>
               length (observers self w) < fuel \<longrightarrow>
               change_temperature ext fuel self t w
                 = snapshot_loop ext self (observers self w)
                     (print Notifying_all_observers (assign_temperature self t w)))"
proof (cases "str_int_raises t")
  case True
  then show ?thesis
    by (simp add: change_temperature_unprintable)
next
  case False
  let ?w = "print Notifying_all_observers (assign_temperature self t w)"
  have r: "list_all (\<lambda>c. snd c = Some t) (fst (notify_loop ext self fuel 0 ?w)) \<and>
      temperature self (world_of (snd (notify_loop ext self fuel 0 ?w))) = Some t"
    using notify_loop_temperature [OF assms, of self ?w fuel 0 self] by simp
  have s: "notify_loop ext self fuel 0 ?w = snapshot_loop ext self (observers self w) ?w"
    if "registry_kept ext self (observers self w) ?w" and "length (observers self w) < fuel"
    using notify_loop_snapshot [of ext self 0 ?w fuel] that by simp
  show ?thesis
    using False r s by (simp add: change_temperature_printable)
qed

theorem observers_read_new_temperature_witness:
  "keeps_temperature no_callbacks \<and>
   \<not> str_int_raises 24 \<and>
   registry_kept no_callbacks 0 (observers 0 client_start)
     (print Notifying_all_observers (assign_temperature 0 24 client_start)) \<and>
   length (observers 0 client_start) < 3 \<and>
   list_all (\<lambda>c. snd c = Some 24) (fst (change_temperature no_callbacks 3 0 24 client_start)) \<and>
   temperature 0 (world_of (snd (change_temperature no_callbacks 3 0 24 client_start))) = Some 24 \<and>
   change_temperature no_callbacks 3 0 24 client_start
     = snapshot_loop no_callbacks 0 (observers 0 client_start)
         (print Notifying_all_observers (assign_temperature 0 24 client_start)) \<and>
   map fst (fst (change_temperature no_callbacks 3 0 24 client_start))
     = [CurrentConditionsDisplay 0, StatisticsDisplay 0] \<and>
   str_int_raises (10 ^ int_max_str_digits) \<and>
   change_temperature no_callbacks 3 0 (10 ^ int_max_str_digits) client_start
     = ([], Raise ValueError client_start)"
proof -
  note h = keeps_temperature_no_callbacks
  have p: "\<not> str_int_raises 24"
    by (simp add: str_int_small)
  have k: "registry_kept no_callbacks 0 (observers 0 client_start)
      (print Notifying_all_observers (assign_temperature 0 24 client_start))"
    by (simp add: client_start_eq station_defs statistics_values)
  have f: "length (observers 0 client_start) < 3"
    by (simp add: client_start_eq observers_def)
  have c: "list_all (\<lambda>c. snd c = Some 24) (fst (change_temperature no_callbacks 3 0 24 client_start)) \<and>
      temperature 0 (world_of (snd (change_temperature no_callbacks 3 0 24 client_start))) = Some 24 \<and>
      (registry_kept no_callbacks 0 (observers 0 client_start)
         (print Notifying_all_observers (assign_temperature 0 24 client_start)) \<and>
       length (observers 0 client_start) < 3 \<longrightarrow>
       change_temperature no_callbacks 3 0 24 client_start
         = snapshot_loop no_callbacks 0 (observers 0 client_start)
             (print Notifying_all_observers (assign_temperature 0 24 client_start)))"
    using observers_read_new_temperature [OF h, of 24 3 0 client_start]
    unfolding if_not_P [OF p] .
  from c k f
  have e: "change_temperature no_callbacks 3 0 24 client_start
      = snapshot_loop no_callbacks 0 (observers 0 client_start)
          (print Notifying_all_observers (assign_temperature 0 24 client_start))"
    by blast
  have l: "map fst (fst (change_temperature no_callbacks 3 0 24 client_start))
     = [CurrentConditionsDisplay 0, StatisticsDisplay 0]"
    by (simp add: client_start_def station_defs statistics_values)
  note q = str_int_raises_limit
  have v: "change_temperature no_callbacks 3 0 (10 ^ int_max_str_digits) client_start
      = ([], Raise ValueError client_start)"
    using observers_read_new_temperature [OF h, of "10 ^ int_max_str_digits" 3 0 client_start]
    unfolding if_P [OF q] .
  show ?thesis
    by (intro conjI h p k f conjunct1 [OF c] conjunct1 [OF conjunct2 [OF c]] e l q v)
qed

section \<open>An update that raises ends the pass (C8)\<close>

lemma overflow_after_self_removal:
  assumes "str_int_raises T = False" and "true_div T (Suc 0) = Inl OverflowError"
  shows "change_temperature self_removing 5 0 T
           (add_observers 0
              [OtherObserver 1, CurrentConditionsDisplay 2, StatisticsDisplay 3] world0)
         = ([(OtherObserver 1, Some T), (StatisticsDisplay 3, Some T)],
            Raise OverflowError
              \<lparr>WeatherStation_observers = [CurrentConditionsDisplay 2, StatisticsDisplay 3],
               instance_temperature = (\<lambda>s. None)(0 := Some T),
               StatisticsDisplay_temperatures = [Some T],
               stdout = [New_observer_added, New_observer_added, New_observer_added,
                 Temperature_changed_to T, Notifying_all_observers, Observer_removed]\<rparr>)"
  using assms by (simp add: station_defs statistics_defs)

text \<open>
  C8 says that when an \<open>update\<close> raises during a pass, the observers earlier in the order
  have already been notified. In the code that depends on what the earlier ones do: with
  the registry \<open>[o1, o2, o3]\<close>, an \<open>o1\<close> whose \<open>update\<close> removes \<open>o1\<close>, the display \<open>o2\<close>
  and the statistics \<open>o3\<close>, \<open>change_temperature(2 ** 1024)\<close> calls \<open>o1\<close>, then finds \<open>o3\<close>
  at position 1, whose \<open>update\<close> raises \<open>OverflowError\<close>: the call ends with \<open>o2\<close>, which
  was before \<open>o3\<close>, never notified.
\<close>

theorem earlier_observer_skipped_before_fault:
  "observers 0
     (add_observers 0 [OtherObserver 1, CurrentConditionsDisplay 2, StatisticsDisplay 3] world0)
     = [OtherObserver 1, CurrentConditionsDisplay 2, StatisticsDisplay 3] \<and>
   change_temperature self_removing 5 0 (2 ^ 1024)
       (add_observers 0 [OtherObserver 1, CurrentConditionsDisplay 2, StatisticsDisplay 3] world0)
     = ([(OtherObserver 1, Some (2 ^ 1024)), (StatisticsDisplay 3, Some (2 ^ 1024))],
        Raise OverflowError
          \<lparr>WeatherStation_observers = [CurrentConditionsDisplay 2, StatisticsDisplay 3],
           instance_temperature = (\<lambda>s. None)(0 := Some (2 ^ 1024)),
           StatisticsDisplay_temperatures = [Some (2 ^ 1024)],
           stdout = [New_observer_added, New_observer_added, New_observer_added,
             Temperature_changed_to (2 ^ 1024), Notifying_all_observers, Observer_removed]\<rparr>)"
proof -
  have "observers 0
     (add_observers 0 [OtherObserver 1, CurrentConditionsDisplay 2, StatisticsDisplay 3] world0)
     = [OtherObserver 1, CurrentConditionsDisplay 2, StatisticsDisplay 3]"
    by (simp add: observers_def add_observer_def print_def world0_def)
  then show ?thesis
    by (rule conjI [OF _ overflow_after_self_removal [OF big_printable big_overflows]])
qed

text \<open>
  C8 as amended: when the \<open>update\<close> of an observer raises during the pass of a
  \<open>change_temperature\<close> with an integer of at most 4300 digits, and every \<open>update\<close> of
  the observers before it returned and left the registry as it found it, the call raises
  the same exception, the observers after it in the sequence are not called, those before
  it have been called, in order, and the station's temperature is the new value. The
  observers of other classes do not assign a station's temperature themselves; the budget
  is above the length of the sequence.
\<close>

theorem fault_ends_the_pass:
  assumes "observers self w = xs @ ob # ys"
    and "\<not> str_int_raises t"
    and "quiet_pass ext self xs
           (print Notifying_all_observers (assign_temperature self t w)) = Some w1"
    and "Observer_update ext ob (WeatherStation self) w1 = Raise e w2"
    and "keeps_temperature ext"
    and "length (observers self w) < fuel"
  shows "map fst (fst (change_temperature ext fuel self t w)) = xs @ [ob] \<and>
         snd (change_temperature ext fuel self t w) = Raise e w2 \<and>
         temperature self w2 = Some t"
proof -
  let ?w = "print Notifying_all_observers (assign_temperature self t w)"
  have "registry_kept ext self (xs @ ob # ys) ?w"
    using quiet_pass_registry_kept [OF assms(3), of "ob # ys"] assms(4) by simp
  then have n: "notify_loop ext self fuel 0 ?w = snapshot_loop ext self (xs @ ob # ys) ?w"
    using notify_loop_snapshot [of ext self 0 ?w fuel] assms(1,6) by simp
  have s: "map fst (fst (snapshot_loop ext self (xs @ ob # ys) ?w)) = xs @ [ob] \<and>
      snd (snapshot_loop ext self (xs @ ob # ys) ?w) = Raise e w2"
    using quiet_pass_snapshot [OF assms(3), of "ob # ys"] assms(4) by (simp add: Let_def)
  have c: "change_temperature ext fuel self t w = snapshot_loop ext self (xs @ ob # ys) ?w"
    using n by (simp add: change_temperature_printable [OF assms(2)])
  have "temperature self (world_of (snd (change_temperature ext fuel self t w))) = Some t"
    using notify_loop_temperature [OF assms(5), of self ?w fuel 0 self]
    by (simp add: change_temperature_printable [OF assms(2)])
  then have "temperature self w2 = Some t"
    using s by (simp add: c)
  then show ?thesis
    using s by (simp add: c)
qed

theorem fault_ends_the_pass_witness:
  "observers 0 early_notify
     = [CurrentConditionsDisplay 1] @ StatisticsDisplay 1 # [CurrentConditionsDisplay 2] \<and>
   \<not> str_int_raises 5 \<and>
   keeps_temperature no_callbacks \<and>
   length (observers 0 early_notify) < 4 \<and>
   map fst (fst (change_temperature no_callbacks 4 0 5 early_notify))
     = [CurrentConditionsDisplay 1] @ [StatisticsDisplay 1] \<and>
   snd (change_temperature no_callbacks 4 0 5 early_notify)
     = Raise TypeError
        \<lparr>WeatherStation_observers =
           [CurrentConditionsDisplay 1, StatisticsDisplay 1, CurrentConditionsDisplay 2],
         instance_temperature = (\<lambda>s. None)(0 := Some 5),
         StatisticsDisplay_temperatures = [None, Some 5],
         stdout = [New_observer_added, New_observer_added, New_observer_added,
           Notifying_all_observers, Current_temperature_is None,
           Temperature_changed_to 5, Notifying_all_observers,
           Current_temperature_is (Some 5)]\<rparr>"
proof -
  let ?w1 = "\<lparr>WeatherStation_observers =
           [CurrentConditionsDisplay 1, StatisticsDisplay 1, CurrentConditionsDisplay 2],
         instance_temperature = (\<lambda>s. None)(0 := Some 5),
         StatisticsDisplay_temperatures = [None],
         stdout = [New_observer_added, New_observer_added, New_observer_added,
           Notifying_all_observers, Current_temperature_is None,
           Temperature_changed_to 5, Notifying_all_observers,
           Current_temperature_is (Some 5)]\<rparr>"
  let ?w2 = "?w1\<lparr>StatisticsDisplay_temperatures := [None, Some 5]\<rparr>"
  have h1: "observers 0 early_notify
      = [CurrentConditionsDisplay 1] @ StatisticsDisplay 1 # [CurrentConditionsDisplay 2]"
    by (simp add: early_notify_eq observers_def)
  have h2: "\<not> str_int_raises 5"
    by (simp add: str_int_small)
  have h3: "quiet_pass no_callbacks 0 [CurrentConditionsDisplay 1]
      (print Notifying_all_observers (assign_temperature 0 5 early_notify)) = Some ?w1"
    by (simp add: early_notify_eq station_defs)
  have h4: "Observer_update no_callbacks (StatisticsDisplay 1) (WeatherStation 0) ?w1
      = Raise TypeError ?w2"
    by (simp add: temperature_def statistics_values)
  note h5 = keeps_temperature_no_callbacks
  have h6: "length (observers 0 early_notify) < 4"
    by (simp add: early_notify_eq observers_def)
  note c = fault_ends_the_pass [OF h1 h2 h3 h4 h5 h6]
  have c2: "snd (change_temperature no_callbacks 4 0 5 early_notify) = Raise TypeError ?w2"
    by (rule conjunct1 [OF conjunct2 [OF c]])
  show ?thesis
    using c2 by (intro conjI h1 h2 h5 h6 conjunct1 [OF c]) simp
qed

section \<open>The client's three changes of temperature (C9)\<close>

text \<open>
  What \<open>_display_statistics\<close> prints for a history of integers whose maximum and
  minimum can be printed: the average, the maximum and the minimum of the whole history.
\<close>

lemma sum_from_Some: "sum_from acc (map Some xs) = Inr (acc + sum_list xs)"
  by (induction xs arbitrary: acc) simp_all

lemma max_from_Some: "max_from (Some k) (map Some xs) = Inr (Some (Max (set (k # xs))))"
proof (induction xs arbitrary: k)
  case Nil
  show ?case by simp
next
  case (Cons x xs)
  have a: "max_from (Some k) (map Some (x # xs)) = max_from (Some (max k x)) (map Some xs)"
    by (auto simp: max_def)
  have b: "Max (set (max k x # xs)) = Max (set (k # x # xs))"
    by (cases "set xs = {}") (simp_all add: max.assoc)
  show ?case
    unfolding a using Cons [of "max k x"] unfolding b .
qed

lemma min_from_Some: "min_from (Some k) (map Some xs) = Inr (Some (Min (set (k # xs))))"
proof (induction xs arbitrary: k)
  case Nil
  show ?case by simp
next
  case (Cons x xs)
  have a: "min_from (Some k) (map Some (x # xs)) = min_from (Some (min k x)) (map Some xs)"
    by (auto simp: min_def)
  have b: "Min (set (min k x # xs)) = Min (set (k # x # xs))"
    by (cases "set xs = {}") (simp_all add: min.assoc)
  show ?case
    unfolding a using Cons [of "min k x"] unfolding b .
qed

lemma display_statistics_history:
  assumes "temperatures self w = map Some xs" and "xs \<noteq> []"
    and "true_div (sum_list xs) (length xs) = Inr avg_temp"
    and "\<not> str_int_raises (Max (set xs))" and "\<not> str_int_raises (Min (set xs))"
  shows "display_statistics self w
    = Return (print (Avg_Max_Min (format_1f avg_temp) (Some (Max (set xs))) (Some (Min (set xs)))) w)"
proof -
  obtain k ys where xs: "xs = k # ys"
    using assms(2) by (cases xs) auto
  show ?thesis
    using assms(3,4,5) max_from_Some [of k ys] min_from_Some [of k ys] sum_from_Some [of 0 xs]
    unfolding display_statistics_def assms(1) py_sum_def py_max_def py_min_def
    by (simp add: xs)
qed





section \<open>No division by zero in the statistics (C10)\<close>

lemma sum_from_error: "sum_from acc xs = Inl e \<Longrightarrow> e = TypeError"
  by (induction acc xs rule: sum_from.induct) simp_all

lemma max_from_error: "max_from kept xs = Inl e \<Longrightarrow> e = TypeError"
  by (induction kept xs rule: max_from.induct) (auto split: option.splits)

lemma min_from_error: "min_from kept xs = Inl e \<Longrightarrow> e = TypeError"
  by (induction kept xs rule: min_from.induct) (auto split: option.splits)

lemma true_div_ZeroDivisionError: "true_div a n = Inl ZeroDivisionError \<longleftrightarrow> n = 0"
  by (simp add: true_div_def Let_def)

lemma display_statistics_ZeroDivisionError:
  "display_statistics self w = Raise ZeroDivisionError w' \<Longrightarrow> temperatures self w = []"
  by (auto simp: display_statistics_def py_sum_def py_max_def py_min_def true_div_ZeroDivisionError
      split: sum.splits list.splits if_splits
      dest: sum_from_error max_from_error min_from_error)

text \<open>
  C10: the division by the length of the history in \<open>_display_statistics\<close> never divides
  by zero. \<open>_display_statistics\<close> is called from \<open>update\<close> only, after the append of line
  147, so the history is not empty there: whatever the observer, the subject and the
  state, \<open>StatisticsDisplay.update\<close> does not raise \<open>ZeroDivisionError\<close>.
\<close>

theorem update_never_divides_by_zero:
  "StatisticsDisplay_update self subject w \<noteq> Raise ZeroDivisionError w'"
proof (cases subject)
  case (WeatherStation s)
  show ?thesis
  proof
    assume "StatisticsDisplay_update self subject w = Raise ZeroDivisionError w'"
    then have "temperatures self
        (w\<lparr>StatisticsDisplay_temperatures := temperatures self w @ [temperature s w]\<rparr>) = []"
      using WeatherStation by (auto dest: display_statistics_ZeroDivisionError)
    then show False by (simp add: temperatures_def)
  qed
next
  case (OtherSubject k)
  then show ?thesis by simp
qed

end
